theory Spec2Isabelle
  imports Main
begin

section \<open>Python strings\<close>

text \<open>
  A Python \<open>str\<close> is a sequence of Unicode code points; a code point is modelled by its
  number, so that \<open>len\<close>, \<open>strip\<close> and \<open>splitlines\<close> count and classify what Python does.
  \<open>str\<close> turns an ASCII literal into such a sequence.
\<close>

type_synonym pystr = "nat list"

definition str :: "string \<Rightarrow> pystr" where
  "str s = map of_char s"

text \<open>
  The line boundaries of \<open>str.splitlines\<close>: LF, VT, FF, CR, FS, GS, RS, NEL, LS, PS
  (CR LF counts as one boundary).
\<close>

definition is_linebreak :: "nat \<Rightarrow> bool" where
  "is_linebreak c = (c \<in> {10, 11, 12, 13, 28, 29, 30, 133, 8232, 8233})"

text \<open>The characters for which \<open>str.isspace\<close> holds; \<open>str.strip()\<close> removes them.\<close>

definition is_space :: "nat \<Rightarrow> bool" where
  "is_space c = ((9 \<le> c \<and> c \<le> 13) \<or> (28 \<le> c \<and> c \<le> 32) \<or> c = 133 \<or> c = 160
     \<or> c = 5760 \<or> (8192 \<le> c \<and> c \<le> 8202) \<or> c = 8232 \<or> c = 8233 \<or> c = 8239
     \<or> c = 8287 \<or> c = 12288)"

text \<open>
  \<open>str.splitlines()\<close>: the text up to each line boundary is one line; the text after the
  last boundary is a line only when it is not empty. \<open>cur\<close> is the current line, reversed.
\<close>

fun splitlines_from :: "pystr \<Rightarrow> pystr \<Rightarrow> pystr list" where
  "splitlines_from cur [] = (if cur = [] then [] else [rev cur])"
| "splitlines_from cur (c # cs) =
     (if c = 13 \<and> take 1 cs = [10] then rev cur # splitlines_from [] (drop 1 cs)
      else if is_linebreak c then rev cur # splitlines_from [] cs
      else splitlines_from (c # cur) cs)"

definition splitlines :: "pystr \<Rightarrow> pystr list" where
  "splitlines s = splitlines_from [] s"

definition strip :: "pystr \<Rightarrow> pystr" where
  "strip s = rev (dropWhile is_space (rev (dropWhile is_space s)))"

definition startswith :: "pystr \<Rightarrow> pystr \<Rightarrow> bool" where
  "startswith s p = (take (length p) s = p)"

text \<open>\<open>str.find(sep)\<close>: the index of the first occurrence of \<open>sep\<close>, if there is one.\<close>

fun py_find :: "pystr \<Rightarrow> pystr \<Rightarrow> nat option" where
  "py_find sep [] = (if sep = [] then Some 0 else None)"
| "py_find sep (c # cs) =
     (if startswith (c # cs) sep then Some 0 else map_option Suc (py_find sep cs))"

lemma py_find_bound: "py_find sep s = Some i \<Longrightarrow> i + length sep \<le> length s"
proof (induction s arbitrary: i)
  case Nil
  then show ?case by (simp split: if_splits)
next
  case (Cons c cs)
  show ?case
  proof (cases "startswith (c # cs) sep")
    case True
    then have "length sep \<le> length (c # cs)"
      unfolding startswith_def by (metis length_take min.cobounded1)
    with True Cons.prems show ?thesis by simp
  next
    case False
    with Cons.prems obtain j where "py_find sep cs = Some j" "i = Suc j"
      by auto
    with Cons.IH show ?thesis by fastforce
  qed
qed

text \<open>
  \<open>str.split(sep, maxsplit)\<close> for a non-empty separator: cut at the occurrences of
  \<open>sep\<close>, left to right, at most \<open>maxsplit\<close> times; a negative \<open>maxsplit\<close> (Python's
  default is \<open>-1\<close>) is no limit. Python raises \<open>ValueError\<close> for the empty separator;
  the source only splits at the literals \<open>"#EXTINF:"\<close>, \<open>","\<close> and \<open>" "\<close>.
\<close>

function py_split :: "pystr \<Rightarrow> int \<Rightarrow> pystr \<Rightarrow> pystr list" where
  "py_split sep maxsplit s =
     (if maxsplit = 0 \<or> sep = [] then [s]
      else (case py_find sep s of
              None \<Rightarrow> [s]
            | Some i \<Rightarrow> take i s # py_split sep (maxsplit - 1) (drop (i + length sep) s)))"
  by pat_completeness auto
termination
proof (relation "measure (\<lambda>(sep, maxsplit, s). length s)")
  show "wf (measure (\<lambda>(sep, maxsplit, s). length s))" by simp
next
  fix sep :: pystr and maxsplit :: int and s :: pystr and i :: nat
  assume "\<not> (maxsplit = 0 \<or> sep = [])" and "py_find sep s = Some i"
  then have "sep \<noteq> []" and "i + length sep \<le> length s"
    using py_find_bound by auto
  then show "((sep, maxsplit - 1, drop (i + length sep) s), (sep, maxsplit, s))
      \<in> measure (\<lambda>(sep, maxsplit, s). length s)"
    by (cases sep) auto
qed

text \<open>\<open>xs[i]\<close> for an index \<open>i \<ge> 0\<close>: \<open>IndexError\<close> when out of range.\<close>

datatype playlist_error =
    Timeout_while_fetching
  | Error_while_fetching
  | Empty_playlist
  | Cant_parse_playlist
  | Invalid_playlist
  | Invalid_NumberOfEntries

datatype py_error =
    PlaylistError playlist_error
  | IndexError
  | KeyError
  | ValueError
  | UnicodeDecodeError
  | NoSectionError
  | NoOptionError
  | InterpolationError

definition py_index :: "'a list \<Rightarrow> nat \<Rightarrow> py_error + 'a" where
  "py_index xs i = (if i < length xs then Inr (xs ! i) else Inl IndexError)"

section \<open>Playlist items and fetching\<close>

text \<open>
  \<open>PlaylistItem\<close> declares \<open>length: str | None\<close>. \<open>parse_pls\<close> stores a string there,
  \<open>parse_m3u\<close> stores the list that \<open>str.split\<close> returns, so the field holds either.
\<close>

datatype length_value = StrValue pystr | ListValue "pystr list"

datatype PlaylistItem =
  PlaylistItem (item_length: "length_value option") (title: "pystr option") (url: pystr)

text \<open>
  \<open>_fetch_playlist\<close>: the HTTP client is an external collaborator; what it did is the
  input. A timeout and a client error become a \<open>PlaylistError\<close>; the body is decoded,
  and a body that is not valid UTF-8 raises \<open>UnicodeDecodeError\<close>, which is not caught.
\<close>

datatype http_outcome = HttpTimeout | HttpClientError | HttpUndecodable | HttpBody pystr

fun fetch_playlist :: "http_outcome \<Rightarrow> py_error + pystr" where
  "fetch_playlist HttpTimeout = Inl (PlaylistError Timeout_while_fetching)"
| "fetch_playlist HttpClientError = Inl (PlaylistError Error_while_fetching)"
| "fetch_playlist HttpUndecodable = Inl UnicodeDecodeError"
| "fetch_playlist (HttpBody playlist_data) = Inr playlist_data"

section \<open>parse_m3u\<close>

definition EXTINF :: pystr where
  "EXTINF = str ''#EXTINF:''"

text \<open>
  The loop over \<open>m3u_lines\<close>, with the loop variables \<open>length\<close>, \<open>title\<close> and \<open>playlist\<close>
  as arguments. \<open>continue\<close> is the recursive call with the variables unchanged.
\<close>

fun m3u_loop ::
  "pystr list \<Rightarrow> length_value option \<Rightarrow> pystr option \<Rightarrow> PlaylistItem list
    \<Rightarrow> py_error + PlaylistItem list" where
  "m3u_loop [] len ttl playlist = Inr playlist"
| "m3u_loop (raw # m3u_lines) len ttl playlist =
     (let line = strip raw in
      if startswith line EXTINF then
        (case py_index (py_split EXTINF (- 1) line) 1 of
           Inl e \<Rightarrow> Inl e
         | Inr remainder \<Rightarrow>
             (let info = py_split (str '','') 1 remainder in
              if length info \<noteq> 2 then m3u_loop m3u_lines len ttl playlist
              else m3u_loop m3u_lines
                     (Some (ListValue (py_split (str '' '') 1 (info ! 0))))
                     (Some (strip (info ! 1))) playlist))
      else if startswith line (str ''#'') then m3u_loop m3u_lines len ttl playlist
      else if length line \<noteq> 0 then
        m3u_loop m3u_lines None None (playlist @ [PlaylistItem len ttl line])
      else m3u_loop m3u_lines len ttl playlist)"

definition parse_m3u :: "http_outcome \<Rightarrow> py_error + PlaylistItem list" where
  "parse_m3u outcome =
     (case fetch_playlist outcome of
        Inl e \<Rightarrow> Inl e
      | Inr m3u_data \<Rightarrow>
          (let m3u_lines = splitlines m3u_data in
           if m3u_lines = [] then Inl (PlaylistError Empty_playlist)
           else m3u_loop m3u_lines None None []))"

text \<open>
  Vocabulary for the statements about the loop, on a line after \<open>strip\<close>. A media line
  reaches the last branch (it is not blank and does not start with \<open>#\<close>); a skipped line
  reaches a \<open>continue\<close> or no branch at all (a blank line, a comment, or an \<open>#EXTINF:\<close>
  line whose split at the first comma does not give two parts).
\<close>

definition is_media_line :: "pystr \<Rightarrow> bool" where
  "is_media_line line = (\<not> startswith line (str ''#'') \<and> line \<noteq> [])"

definition is_skipped_line :: "pystr \<Rightarrow> bool" where
  "is_skipped_line line =
     (if startswith line EXTINF then
        (case py_index (py_split EXTINF (- 1) line) 1 of
           Inl e \<Rightarrow> False
         | Inr remainder \<Rightarrow> length (py_split (str '','') 1 remainder) \<noteq> 2)
      else startswith line (str ''#'') \<or> line = [])"

section \<open>parse_pls\<close>

text \<open>
  \<open>configparser\<close> is Python's library, not this repository's: the parser object is
  modelled by what the source observes of it. A section maps an option name, as the
  source passes it, to the outcome of reading that option: absent, a value, or the
  error that \<open>get\<close> raises while interpolating the stored text. The parser maps a
  section name to its section. \<open>read_string\<close> is a parameter of \<open>parse_pls\<close>; it
  returns \<open>None\<close> where the library raises \<open>configparser.Error\<close>. The builtin \<open>int\<close>
  is a parameter too, \<open>None\<close> standing for \<open>ValueError\<close>. In \<open>parse_pls\<close> the clause
  \<open>except (NoOptionError, ValueError)\<close> is the case distinction on the error of
  \<open>parser_getint\<close>; every other error is raised to the caller.
\<close>

type_synonym SectionProxy = "pystr \<Rightarrow> (py_error + pystr) option"

type_synonym ConfigParser = "pystr \<Rightarrow> SectionProxy option"

definition PLS_SECTION_PLAYLIST :: pystr where
  "PLS_SECTION_PLAYLIST = str ''playlist''"

text \<open>\<open>section.get(option)\<close>: the fallback \<open>None\<close> for an absent option.\<close>

definition section_get :: "SectionProxy \<Rightarrow> pystr \<Rightarrow> py_error + pystr option" where
  "section_get section option =
     (case section option of
        None \<Rightarrow> Inr None
      | Some (Inl e) \<Rightarrow> Inl e
      | Some (Inr v) \<Rightarrow> Inr (Some v))"

text \<open>\<open>section[option]\<close>: \<open>KeyError\<close> for an absent option.\<close>

definition section_getitem :: "SectionProxy \<Rightarrow> pystr \<Rightarrow> py_error + pystr" where
  "section_getitem section option =
     (case section option of
        None \<Rightarrow> Inl KeyError
      | Some outcome \<Rightarrow> outcome)"

text \<open>
  \<open>section.getint(option)\<close>: the fallback \<open>None\<close> for an absent option; the conversion
  of a value that is present is not guarded, so its \<open>ValueError\<close> is raised.
\<close>

definition section_getint ::
  "(pystr \<Rightarrow> int option) \<Rightarrow> SectionProxy \<Rightarrow> pystr \<Rightarrow> py_error + int option" where
  "section_getint to_int section option =
     (case section option of
        None \<Rightarrow> Inr None
      | Some (Inl e) \<Rightarrow> Inl e
      | Some (Inr v) \<Rightarrow> (case to_int v of None \<Rightarrow> Inl ValueError | Some n \<Rightarrow> Inr (Some n)))"

text \<open>\<open>parser.getint(section, option)\<close>, without fallback.\<close>

definition parser_getint ::
  "(pystr \<Rightarrow> int option) \<Rightarrow> ConfigParser \<Rightarrow> pystr \<Rightarrow> pystr \<Rightarrow> py_error + int" where
  "parser_getint to_int parser section option =
     (case parser section of
        None \<Rightarrow> Inl NoSectionError
      | Some proxy \<Rightarrow>
          (case proxy option of
             None \<Rightarrow> Inl NoOptionError
           | Some (Inl e) \<Rightarrow> Inl e
           | Some (Inr v) \<Rightarrow>
               (case to_int v of None \<Rightarrow> Inl ValueError | Some n \<Rightarrow> Inr n)))"

text \<open>\<open>str(n)\<close> for an integer, as the f-strings \<open>f"File{entry}"\<close> format it.\<close>

function decimal :: "nat \<Rightarrow> pystr" where
  "decimal n = (if n < 10 then [48 + n] else decimal (n div 10) @ [48 + n mod 10])"
  by pat_completeness auto
termination
  by (relation "measure (\<lambda>n. n)") auto

definition py_str_int :: "int \<Rightarrow> pystr" where
  "py_str_int i = (if i < 0 then 45 # decimal (nat (- i)) else decimal (nat i))"

text \<open>The loop over \<open>range(1, num_entries + 1)\<close>, with \<open>playlist\<close> as argument.\<close>

fun pls_loop ::
  "SectionProxy \<Rightarrow> int list \<Rightarrow> PlaylistItem list \<Rightarrow> py_error + PlaylistItem list" where
  "pls_loop playlist_section [] playlist = Inr playlist"
| "pls_loop playlist_section (entry # entries) playlist =
     (let file_option = str ''File'' @ py_str_int entry in
      if playlist_section file_option = None then pls_loop playlist_section entries playlist
      else
        (case section_get playlist_section (str ''Length'' @ py_str_int entry) of
           Inl e \<Rightarrow> Inl e
         | Inr len \<Rightarrow>
        (case section_get playlist_section (str ''Title'' @ py_str_int entry) of
           Inl e \<Rightarrow> Inl e
         | Inr ttl \<Rightarrow>
        (case section_getitem playlist_section file_option of
           Inl e \<Rightarrow> Inl e
         | Inr file \<Rightarrow>
             pls_loop playlist_section entries
               (playlist @ [PlaylistItem (map_option StrValue len) ttl file])))))"

definition parse_pls ::
  "(pystr \<Rightarrow> ConfigParser option) \<Rightarrow> (pystr \<Rightarrow> int option) \<Rightarrow> http_outcome
    \<Rightarrow> py_error + PlaylistItem list" where
  "parse_pls read_string to_int outcome =
     (case fetch_playlist outcome of
        Inl e \<Rightarrow> Inl e
      | Inr pls_data \<Rightarrow>
     (case read_string pls_data of
        None \<Rightarrow> Inl (PlaylistError Cant_parse_playlist)
      | Some pls_parser \<Rightarrow>
     (case pls_parser PLS_SECTION_PLAYLIST of
        None \<Rightarrow> Inl (PlaylistError Invalid_playlist)
      | Some playlist_section \<Rightarrow>
     (case section_getint to_int playlist_section (str ''Version'') of
        Inl e \<Rightarrow> Inl e
      | Inr version \<Rightarrow>
          if version \<noteq> Some 2 then Inl (PlaylistError Invalid_playlist)
          else
            (case parser_getint to_int pls_parser PLS_SECTION_PLAYLIST (str ''NumberOfEntries'') of
               Inl NoOptionError \<Rightarrow> Inl (PlaylistError Invalid_NumberOfEntries)
             | Inl ValueError \<Rightarrow> Inl (PlaylistError Invalid_NumberOfEntries)
             | Inl e \<Rightarrow> Inl e
             | Inr num_entries \<Rightarrow> pls_loop playlist_section [1..num_entries] [])))))"

text \<open>
  Vocabulary for the statements about the loop: the value of an option that is present
  and read without error, and the item that the loop body builds for an entry.
\<close>

definition option_value :: "SectionProxy \<Rightarrow> pystr \<Rightarrow> pystr option" where
  "option_value section option =
     (case section option of Some (Inr v) \<Rightarrow> Some v | _ \<Rightarrow> None)"

definition pls_item :: "SectionProxy \<Rightarrow> int \<Rightarrow> PlaylistItem" where
  "pls_item section entry =
     PlaylistItem
       (map_option StrValue (option_value section (str ''Length'' @ py_str_int entry)))
       (option_value section (str ''Title'' @ py_str_int entry))
       (case option_value section (str ''File'' @ py_str_int entry) of
          Some file \<Rightarrow> file | None \<Rightarrow> [])"

definition has_file :: "SectionProxy \<Rightarrow> int \<Rightarrow> bool" where
  "has_file section entry = (section (str ''File'' @ py_str_int entry) \<noteq> None)"

text \<open>
  A conversion and a parsed playlist to evaluate \<open>parse_pls\<close> on: \<open>ascii_int\<close> reads an
  optional sign and ASCII digits between white space, as \<open>int\<close> does on such text (it
  rejects the other forms \<open>int\<close> accepts, digits of other scripts and underscores);
  \<open>version_two_pls\<close> is the text of a playlist whose \<open>Version\<close> is the word \<open>two\<close>, and
  \<open>version_two_parser\<close> what \<open>read_string\<close> makes of it.
\<close>

fun digits_value :: "nat \<Rightarrow> pystr \<Rightarrow> nat option" where
  "digits_value acc [] = Some acc"
| "digits_value acc (c # cs) =
     (if 48 \<le> c \<and> c \<le> 57 then digits_value (10 * acc + (c - 48)) cs else None)"

definition ascii_int :: "pystr \<Rightarrow> int option" where
  "ascii_int s =
     (case strip s of
        [] \<Rightarrow> None
      | c # cs \<Rightarrow>
          if c = 45 then (if cs = [] then None else map_option (\<lambda>n. - int n) (digits_value 0 cs))
          else if c = 43 then (if cs = [] then None else map_option int (digits_value 0 cs))
          else map_option int (digits_value 0 (c # cs)))"

definition version_two_pls :: pystr where
  "version_two_pls = str ''[playlist]'' @ [10] @ str ''Version=two'' @ [10]
     @ str ''NumberOfEntries=1'' @ [10] @ str ''File1=http://x''"

definition version_two_section :: SectionProxy where
  "version_two_section =
     [str ''Version'' \<mapsto> Inr (str ''two''),
      str ''NumberOfEntries'' \<mapsto> Inr (str ''1''),
      str ''File1'' \<mapsto> Inr (str ''http://x'')]"

text \<open>The section of the playlist with two entries, a title for the first only.\<close>

definition two_entries_section :: SectionProxy where
  "two_entries_section =
     [str ''Version'' \<mapsto> Inr (str ''2''),
      str ''NumberOfEntries'' \<mapsto> Inr (str ''2''),
      str ''File1'' \<mapsto> Inr (str ''http://x''),
      str ''Title1'' \<mapsto> Inr (str ''Song''),
      str ''File2'' \<mapsto> Inr (str ''http://y'')]"

definition version_two_parser :: "pystr \<Rightarrow> ConfigParser option" where
  "version_two_parser pls_data =
     (if pls_data = version_two_pls then Some [PLS_SECTION_PLAYLIST \<mapsto> version_two_section]
      else None)"

section \<open>ChromecastInfo\<close>

text \<open>
  Modelled from the spec: \<open>CastInfo\<close> and \<open>CAST_TYPE_GROUP\<close> are declared by the device
  library. The record has the fields the source reads: the advertised services, the
  unique identifier, the human-friendly name, the cast-type classification and the
  manufacturer; the last two are \<open>None\<close> while unknown. \<open>CAST_TYPE_GROUP\<close> is the
  classification of an audio group.
\<close>

type_synonym uuid = string

record CastInfo =
  services :: "string list"
  uuid :: uuid
  friendly_name :: "string option"
  cast_type :: "string option"
  manufacturer :: "string option"

definition CAST_TYPE_GROUP :: string where
  "CAST_TYPE_GROUP = ''group''"

record ChromecastInfo =
  cast_info :: CastInfo
  is_dynamic_group :: "bool option"

definition ChromecastInfo_friendly_name :: "ChromecastInfo \<Rightarrow> string option" where
  "ChromecastInfo_friendly_name self = friendly_name (cast_info self)"

definition is_audio_group :: "ChromecastInfo \<Rightarrow> bool" where
  "is_audio_group self = (cast_type (cast_info self) = Some CAST_TYPE_GROUP)"

definition ChromecastInfo_uuid :: "ChromecastInfo \<Rightarrow> uuid" where
  "ChromecastInfo_uuid self = uuid (cast_info self)"

text \<open>
  The answer of the group-status query: the dynamic groups, each given by its uuid, the
  one attribute the source reads.
\<close>

record MultizoneStatus =
  dynamic_groups :: "uuid list"

text \<open>
  \<open>fill_out_missing_chromecast_info\<close>. The two blocking queries of the device library
  are the parameters \<open>get_cast_type\<close> and \<open>get_multizone_status\<close>, fixed functions of
  what the source passes them (the discovery-service handle is part of them).
  \<open>ChromecastInfo(cast_info=cast_info)\<close> leaves \<open>is_dynamic_group\<close> at its default
  \<open>None\<close>.
\<close>

definition fill_out_missing_chromecast_info ::
  "(CastInfo \<Rightarrow> CastInfo) \<Rightarrow> (string list \<Rightarrow> MultizoneStatus option) \<Rightarrow> ChromecastInfo
    \<Rightarrow> ChromecastInfo" where
  "fill_out_missing_chromecast_info get_cast_type get_multizone_status self =
     (let info = (if cast_type (cast_info self) = None \<or> manufacturer (cast_info self) = None
                  then get_cast_type (cast_info self) else cast_info self) in
      if \<not> is_audio_group self \<or> is_dynamic_group self \<noteq> None then
        \<lparr>cast_info = info, is_dynamic_group = None\<rparr>
      else
        (let http_group_status = get_multizone_status (services (cast_info self));
             dynamic =
               (case http_group_status of
                  None \<Rightarrow> False
                | Some status \<Rightarrow>
                    list_ex (\<lambda>g. g = uuid (cast_info self)) (dynamic_groups status))
         in \<lparr>cast_info = info, is_dynamic_group = Some dynamic\<rparr>))"

text \<open>
  Collaborators and descriptors to evaluate the function on: a capability query that
  answers with a plain receiver made by Google and one that answers with a speaker
  group, a group-status query that gets no answer, a speaker group whose metadata is
  complete, and a plain receiver.
\<close>

definition offline_get_cast_type :: "CastInfo \<Rightarrow> CastInfo" where
  "offline_get_cast_type info =
     info\<lparr>cast_type := Some ''cast'', manufacturer := Some ''Google Inc.''\<rparr>"

definition group_get_cast_type :: "CastInfo \<Rightarrow> CastInfo" where
  "group_get_cast_type info =
     info\<lparr>cast_type := Some CAST_TYPE_GROUP, manufacturer := Some ''Google Inc.''\<rparr>"

definition offline_get_multizone_status :: "string list \<Rightarrow> MultizoneStatus option" where
  "offline_get_multizone_status srv = None"

definition kitchen_group_info :: CastInfo where
  "kitchen_group_info =
     \<lparr>services = [''kitchen._googlecast._tcp.local.''], uuid = ''uuid-kitchen'',
      friendly_name = Some ''Kitchen'', cast_type = Some CAST_TYPE_GROUP,
      manufacturer = Some ''Google Inc.''\<rparr>"

definition living_room_info :: CastInfo where
  "living_room_info =
     \<lparr>services = [''living._googlecast._tcp.local.''], uuid = ''uuid-living'',
      friendly_name = Some ''Living room'', cast_type = Some ''cast'',
      manufacturer = Some ''Google Inc.''\<rparr>"

section \<open>CastStatusListener\<close>

text \<open>
  The listener's collaborators are objects of other components; each is modelled by what
  the listener does to it. The logical device (\<open>cast_device\<close>) carries its descriptor
  \<open>_cast_info\<close> and the calls it has received; the connection (\<open>chromecast\<close>) its uuid and
  the subscriptions it has received; the coordinator (\<open>mz_mgr\<close>) the calls it has
  received. A call to the device or to the connection is appended to the receiver's list
  and returns. A call to the coordinator is appended to its list and then returns or
  raises: which of the two is the coordinator's matter, so the coordinator is a parameter,
  a function from the calls it has received before and the call being made to the
  exception it raises, \<open>None\<close> when the call returns. A listener object is named by a
  number, its identity. Payloads are of any type \<open>'p\<close>.
\<close>

type_synonym listener_id = nat

datatype 'p device_call =
    Dev_new_cast_status 'p
  | Dev_new_media_status 'p
  | Dev_new_connection_status 'p
  | Dev_multizone_new_media_status uuid "'p option"

datatype subscription =
    Register_status_listener listener_id
  | Register_media_status_listener listener_id
  | Register_connection_listener listener_id

datatype mz_call =
    Add_multizone uuid
  | Remove_multizone uuid
  | Register_listener uuid listener_id
  | Deregister_listener uuid listener_id

record 'p CastDevice =
  dev_cast_info :: ChromecastInfo
  received :: "'p device_call list"

record Chromecast =
  chromecast_uuid :: uuid
  subscriptions :: "subscription list"

record 'p world =
  cast_device :: "'p CastDevice"
  chromecast :: Chromecast
  mz_mgr :: "mz_call list"

record CastStatusListener =
  self_id :: listener_id
  listener_uuid :: uuid
  valid :: bool

definition call_device :: "'p device_call \<Rightarrow> 'p world \<Rightarrow> 'p world" where
  "call_device c w = w\<lparr>cast_device := (cast_device w)\<lparr>received := received (cast_device w) @ [c]\<rparr>\<rparr>"

definition call_chromecast :: "subscription \<Rightarrow> 'p world \<Rightarrow> 'p world" where
  "call_chromecast c w = w\<lparr>chromecast := (chromecast w)\<lparr>subscriptions := subscriptions (chromecast w) @ [c]\<rparr>\<rparr>"

type_synonym coordinator = "mz_call list \<Rightarrow> mz_call \<Rightarrow> py_error option"

definition call_mz_mgr ::
  "coordinator \<Rightarrow> mz_call \<Rightarrow> 'p world \<Rightarrow> py_error option \<times> 'p world" where
  "call_mz_mgr mgr c w = (mgr (mz_mgr w) c, w\<lparr>mz_mgr := mz_mgr w @ [c]\<rparr>)"

text \<open>
  What a method of the listener leaves behind: the exception it raised, \<open>None\<close> when it
  returned; the listener object; the world.
\<close>

record 'p returned =
  raised :: "py_error option"
  the_listener :: CastStatusListener
  world_after :: "'p world"

text \<open>
  \<open>__init__\<close>: \<open>ident\<close> is the identity of the object being initialised. A coordinator
  call that raises ends the method there.
\<close>

definition CastStatusListener_init ::
  "coordinator \<Rightarrow> listener_id \<Rightarrow> bool \<Rightarrow> 'p world \<Rightarrow> 'p returned" where
  "CastStatusListener_init mgr ident mz_only w =
     (let self = \<lparr>self_id = ident, listener_uuid = chromecast_uuid (chromecast w), valid = True\<rparr>;
          (e1, w1) = (if is_audio_group (dev_cast_info (cast_device w))
                      then call_mz_mgr mgr (Add_multizone (chromecast_uuid (chromecast w))) w
                      else (None, w))
      in if e1 \<noteq> None then \<lparr>raised = e1, the_listener = self, world_after = w1\<rparr>
         else if mz_only then \<lparr>raised = None, the_listener = self, world_after = w1\<rparr>
         else
           (let w2 = call_chromecast (Register_status_listener ident) w1;
                w3 = call_chromecast (Register_media_status_listener ident) w2;
                w4 = call_chromecast (Register_connection_listener ident) w3;
                (e5, w5) =
                  (if \<not> is_audio_group (dev_cast_info (cast_device w4))
                   then call_mz_mgr mgr
                          (Register_listener (chromecast_uuid (chromecast w4)) ident) w4
                   else (None, w4))
            in \<lparr>raised = e5, the_listener = self, world_after = w5\<rparr>))"

definition new_cast_status :: "CastStatusListener \<Rightarrow> 'p \<Rightarrow> 'p world \<Rightarrow> 'p world" where
  "new_cast_status self cast_status w =
     (if valid self then call_device (Dev_new_cast_status cast_status) w else w)"

definition new_media_status :: "CastStatusListener \<Rightarrow> 'p \<Rightarrow> 'p world \<Rightarrow> 'p world" where
  "new_media_status self media_status w =
     (if valid self then call_device (Dev_new_media_status media_status) w else w)"

definition new_connection_status :: "CastStatusListener \<Rightarrow> 'p \<Rightarrow> 'p world \<Rightarrow> 'p world" where
  "new_connection_status self connection_status w =
     (if valid self then call_device (Dev_new_connection_status connection_status) w else w)"

definition added_to_multizone :: "uuid \<Rightarrow> 'p world \<Rightarrow> 'p world" where
  "added_to_multizone group_uuid w = w"

definition removed_from_multizone :: "CastStatusListener \<Rightarrow> uuid \<Rightarrow> 'p world \<Rightarrow> 'p world" where
  "removed_from_multizone self group_uuid w =
     (if valid self then call_device (Dev_multizone_new_media_status group_uuid None) w else w)"

definition multizone_new_cast_status ::
  "CastStatusListener \<Rightarrow> uuid \<Rightarrow> 'p \<Rightarrow> 'p world \<Rightarrow> 'p world" where
  "multizone_new_cast_status self group_uuid cast_status w = w"

definition multizone_new_media_status ::
  "CastStatusListener \<Rightarrow> uuid \<Rightarrow> 'p \<Rightarrow> 'p world \<Rightarrow> 'p world" where
  "multizone_new_media_status self group_uuid media_status w =
     (if valid self
      then call_device (Dev_multizone_new_media_status group_uuid (Some media_status)) w
      else w)"

text \<open>
  \<open>invalidate\<close>: the assignment \<open>self._valid = False\<close> is the last statement, after the
  call to the coordinator; when that call raises, the flag is left as it was.
\<close>

definition invalidate :: "coordinator \<Rightarrow> CastStatusListener \<Rightarrow> 'p world \<Rightarrow> 'p returned" where
  "invalidate mgr self w =
     (let (e, w1) =
            (if is_audio_group (dev_cast_info (cast_device w))
             then call_mz_mgr mgr (Remove_multizone (listener_uuid self)) w
             else call_mz_mgr mgr (Deregister_listener (listener_uuid self) (self_id self)) w)
      in if e \<noteq> None then \<lparr>raised = e, the_listener = self, world_after = w1\<rparr>
         else \<lparr>raised = None, the_listener = self\<lparr>valid := False\<rparr>, world_after = w1\<rparr>)"

text \<open>
  The callbacks that the connection and the coordinator deliver to a listener, and the
  delivery of a sequence of them, one after the other.
\<close>

datatype 'p callback =
    New_cast_status 'p
  | New_media_status 'p
  | New_connection_status 'p
  | Added_to_multizone uuid
  | Removed_from_multizone uuid
  | Multizone_new_cast_status uuid 'p
  | Multizone_new_media_status uuid 'p

fun deliver :: "CastStatusListener \<Rightarrow> 'p callback \<Rightarrow> 'p world \<Rightarrow> 'p world" where
  "deliver self (New_cast_status s) w = new_cast_status self s w"
| "deliver self (New_media_status s) w = new_media_status self s w"
| "deliver self (New_connection_status s) w = new_connection_status self s w"
| "deliver self (Added_to_multizone g) w = added_to_multizone g w"
| "deliver self (Removed_from_multizone g) w = removed_from_multizone self g w"
| "deliver self (Multizone_new_cast_status g s) w = multizone_new_cast_status self g s w"
| "deliver self (Multizone_new_media_status g s) w = multizone_new_media_status self g s w"

fun deliver_all :: "CastStatusListener \<Rightarrow> 'p callback list \<Rightarrow> 'p world \<Rightarrow> 'p world" where
  "deliver_all self [] w = w"
| "deliver_all self (c # cs) w = deliver_all self cs (deliver self c w)"

text \<open>A world to evaluate the listener on: a plain receiver, nothing registered yet.\<close>

definition living_room_world :: "string world" where
  "living_room_world =
     \<lparr>cast_device = \<lparr>dev_cast_info = \<lparr>cast_info = living_room_info, is_dynamic_group = None\<rparr>,
                     received = []\<rparr>,
      chromecast = \<lparr>chromecast_uuid = ''uuid-living'', subscriptions = []\<rparr>,
      mz_mgr = []\<rparr>"

text \<open>
  Two coordinators to evaluate the listener with. The first never raises. The second
  keeps the registered listeners in a dictionary by uuid, as the device library's manager
  does: \<open>register_listener\<close> makes the entry when it is missing and appends the listener;
  \<open>deregister_listener\<close> looks the entry up, which raises \<open>KeyError\<close> when there is none,
  and removes the listener from the entry's list, which raises \<open>ValueError\<close> when it is
  not in it; \<open>add_multizone\<close> and \<open>remove_multizone\<close> do not raise.
\<close>

definition quiet_coordinator :: coordinator where
  "quiet_coordinator history c = None"

fun casts_step :: "(uuid \<rightharpoonup> listener_id list) \<Rightarrow> mz_call \<Rightarrow> (uuid \<rightharpoonup> listener_id list)" where
  "casts_step casts (Register_listener u l) =
     casts(u \<mapsto> (case casts u of None \<Rightarrow> [l] | Some ls \<Rightarrow> ls @ [l]))"
| "casts_step casts (Deregister_listener u l) =
     (case casts u of None \<Rightarrow> casts | Some ls \<Rightarrow> casts(u \<mapsto> remove1 l ls))"
| "casts_step casts (Add_multizone u) = casts"
| "casts_step casts (Remove_multizone u) = casts"

definition library_coordinator :: coordinator where
  "library_coordinator history c =
     (case c of
        Deregister_listener u l \<Rightarrow>
          (case foldl casts_step Map.empty history u of
             None \<Rightarrow> Some KeyError
           | Some ls \<Rightarrow> if l \<in> set ls then None else Some ValueError)
      | _ \<Rightarrow> None)"

section \<open>Facts about the string functions\<close>

declare py_split.simps [simp del]

lemma py_split_zero: "py_split sep 0 s = [s]"
  by (simp add: py_split.simps)

lemma py_split_none: "py_find sep s = None \<Longrightarrow> py_split sep maxsplit s = [s]"
  by (simp add: py_split.simps)

lemma py_split_some:
  "maxsplit \<noteq> 0 \<Longrightarrow> sep \<noteq> [] \<Longrightarrow> py_find sep s = Some i \<Longrightarrow>
   py_split sep maxsplit s = take i s # py_split sep (maxsplit - 1) (drop (i + length sep) s)"
  by (simp add: py_split.simps)

lemmas string_eval = splitlines_def str_def EXTINF_def strip_def startswith_def
  is_space_def is_linebreak_def py_index_def py_split_zero py_split_none py_split_some Let_def

lemma py_split_not_Nil: "py_split sep maxsplit s \<noteq> []"
  by (subst py_split.simps) (simp split: option.split)

lemma startswith_find: "startswith s sep \<Longrightarrow> py_find sep s = Some 0"
  by (cases s) (auto simp: startswith_def)

lemma find_absent: "c \<notin> set s \<Longrightarrow> py_find [c] s = None"
  by (induction s) (auto simp: startswith_def)

lemma splitlines_from_Nil: "splitlines_from cur s = [] \<longleftrightarrow> cur = [] \<and> s = []"
  by (induction cur s rule: splitlines_from.induct) auto

lemma splitlines_Nil: "splitlines s = [] \<longleftrightarrow> s = []"
  by (simp add: splitlines_def splitlines_from_Nil)

section \<open>Facts about parse_m3u\<close>

lemma EXTINF_not_Nil: "EXTINF \<noteq> []"
  by (simp add: EXTINF_def str_def)

lemma startswith_EXTINF_hash: "startswith line EXTINF \<Longrightarrow> startswith line (str ''#'')"
  by (cases line) (auto simp: startswith_def EXTINF_def str_def)

lemma extinf_split:
  assumes "startswith line EXTINF"
  shows "py_split EXTINF (- 1) line = [] # py_split EXTINF (- 2) (drop (length EXTINF) line)"
  using py_split_some [of "- 1" EXTINF line 0] startswith_find [OF assms] EXTINF_not_Nil
  by simp

text \<open>The index \<open>[1]\<close> after the split at the marker is always in range.\<close>

lemma extinf_remainder_ok:
  assumes "startswith line EXTINF"
  shows "\<exists>remainder. py_index (py_split EXTINF (- 1) line) 1 = Inr remainder"
proof -
  obtain r rs where "py_split EXTINF (- 2) (drop (length EXTINF) line) = r # rs"
    using py_split_not_Nil by (meson list.exhaust)
  then show ?thesis
    by (simp add: extinf_split [OF assms] py_index_def)
qed

lemma m3u_loop_returns: "\<exists>items. m3u_loop m3u_lines len ttl playlist = Inr items"
proof (induction m3u_lines arbitrary: len ttl playlist)
  case Nil
  show ?case by simp
next
  case (Cons raw m3u_lines)
  show ?case
  proof (cases "startswith (strip raw) EXTINF")
    case True
    then obtain remainder where "py_index (py_split EXTINF (- 1) (strip raw)) 1 = Inr remainder"
      using extinf_remainder_ok by blast
    with True Cons.IH show ?thesis
      by (simp add: Let_def)
  next
    case False
    with Cons.IH show ?thesis
      by (simp add: Let_def)
  qed
qed

lemma m3u_loop_media_line:
  assumes "is_media_line (strip raw)"
  shows "m3u_loop (raw # rest) len ttl playlist
       = m3u_loop rest None None (playlist @ [PlaylistItem len ttl (strip raw)])"
proof -
  from assms have "\<not> startswith (strip raw) EXTINF"
    using startswith_EXTINF_hash by (auto simp: is_media_line_def)
  with assms show ?thesis
    by (simp add: is_media_line_def Let_def)
qed

lemma m3u_loop_skipped_line:
  assumes "is_skipped_line (strip raw)"
  shows "m3u_loop (raw # rest) len ttl playlist = m3u_loop rest len ttl playlist"
  using assms
  by (auto simp: is_skipped_line_def Let_def split: if_splits sum.splits)

lemma m3u_loop_skipped_lines:
  assumes "\<forall>raw \<in> set skipped. is_skipped_line (strip raw)"
  shows "m3u_loop (skipped @ rest) len ttl playlist = m3u_loop rest len ttl playlist"
  using assms
proof (induction skipped)
  case Nil
  show ?case by simp
next
  case (Cons raw skipped)
  then show ?case
    using m3u_loop_skipped_line [of raw] by simp
qed

text \<open>The items come in the order of the media lines, one for each.\<close>

lemma m3u_loop_urls:
  "m3u_loop m3u_lines len ttl playlist = Inr items \<Longrightarrow>
   map url items = map url playlist @ filter is_media_line (map strip m3u_lines)"
proof (induction m3u_lines arbitrary: len ttl playlist)
  case Nil
  then show ?case by simp
next
  case (Cons raw m3u_lines)
  show ?case
  proof (cases "is_media_line (strip raw)")
    case True
    with Cons.prems
    have "m3u_loop m3u_lines None None (playlist @ [PlaylistItem len ttl (strip raw)]) = Inr items"
      by (simp only: m3u_loop_media_line)
    from Cons.IH [OF this] True show ?thesis by simp
  next
    case False
    have "\<exists>l t. m3u_loop (raw # m3u_lines) len ttl playlist = m3u_loop m3u_lines l t playlist"
    proof (cases "startswith (strip raw) EXTINF")
      case True
      then obtain remainder where "py_index (py_split EXTINF (- 1) (strip raw)) 1 = Inr remainder"
        using extinf_remainder_ok by blast
      with True show ?thesis by (auto simp: Let_def)
    next
      case no_marker: False
      with False show ?thesis by (auto simp: Let_def is_media_line_def)
    qed
    then obtain l t where "m3u_loop m3u_lines l t playlist = Inr items"
      using Cons.prems by metis
    from Cons.IH [OF this] False show ?thesis by simp
  qed
qed

lemma invalid_extinf_skipped:
  assumes "startswith line EXTINF"
      and "py_index (py_split EXTINF (- 1) line) 1 = Inr remainder"
      and "of_char CHR '','' \<notin> set remainder"
  shows "is_skipped_line line"
proof -
  have "py_find (str '','') remainder = None"
    using assms(3) find_absent [of "of_char CHR '',''" remainder] by (simp add: str_def)
  then have "py_split (str '','') 1 remainder = [remainder]"
    by (rule py_split_none)
  with assms(1,2) show ?thesis
    by (simp add: is_skipped_line_def)
qed

text \<open>
  C2. For the text \<open>#EXTINF:123 extra,My Title\<close>, a line feed, \<open>http://a/b\<close>,
  \<open>parse_m3u\<close> returns one item with that title and url; its length is the list of the two
  strings \<open>123\<close> and \<open>extra\<close> that \<open>info[0].split(" ", 1)\<close> returns, not the string \<open>123\<close>.
\<close>

theorem parse_m3u_extinf_length_is_list:
  "parse_m3u (HttpBody (str ''#EXTINF:123 extra,My Title'' @ [10] @ str ''http://a/b''))
     = Inr [PlaylistItem (Some (ListValue [str ''123'', str ''extra'']))
              (Some (str ''My Title'')) (str ''http://a/b'')]
   \<and> parse_m3u (HttpBody (str ''#EXTINF:123 extra,My Title'' @ [10] @ str ''http://a/b''))
     \<noteq> Inr [PlaylistItem (Some (StrValue (str ''123'')))
              (Some (str ''My Title'')) (str ''http://a/b'')]"
  by (simp add: parse_m3u_def string_eval)

text \<open>
  C7. After a successful fetch, \<open>parse_m3u\<close> fails with the empty-playlist error exactly
  when the text splits into no lines (which is when the text is empty); for a text with
  at least one line it returns a list of items and raises nothing, and the urls of the
  items are the media lines of the text in their order.
\<close>

theorem parse_m3u_fails_iff_no_lines:
  "(parse_m3u (HttpBody m3u_data) = Inl (PlaylistError Empty_playlist)
      \<longleftrightarrow> splitlines m3u_data = [])
   \<and> (splitlines m3u_data = [] \<longleftrightarrow> m3u_data = [])
   \<and> (splitlines m3u_data \<noteq> [] \<longrightarrow>
        (\<exists>items. parse_m3u (HttpBody m3u_data) = Inr items
           \<and> map url items = filter is_media_line (map strip (splitlines m3u_data))))"
proof -
  obtain items where items: "m3u_loop (splitlines m3u_data) None None [] = Inr items"
    using m3u_loop_returns by blast
  have urls: "map url items = filter is_media_line (map strip (splitlines m3u_data))"
    using m3u_loop_urls [OF items] by simp
  show ?thesis
  proof (cases "splitlines m3u_data = []")
    case True
    then show ?thesis
      by (simp add: parse_m3u_def splitlines_Nil)
  next
    case False
    then have "parse_m3u (HttpBody m3u_data) = Inr items"
      by (simp add: parse_m3u_def items)
    with False urls show ?thesis
      by (simp add: splitlines_Nil)
  qed
qed

theorem parse_m3u_fails_iff_no_lines_witness:
  "splitlines (str ''http://a/b'') \<noteq> []
   \<and> (\<exists>items. parse_m3u (HttpBody (str ''http://a/b'')) = Inr items
         \<and> map url items = filter is_media_line (map strip (splitlines (str ''http://a/b''))))"
proof -
  have "splitlines (str ''http://a/b'') \<noteq> []"
    by (simp add: string_eval)
  with parse_m3u_fails_iff_no_lines [of "str ''http://a/b''"] show ?thesis
    by blast
qed

text \<open>
  C8. A media line emits an item with the pending length and title and resets both, so
  the metadata of an \<open>#EXTINF:\<close> line goes to one url at most: a media line reached with
  nothing pending, after any number of skipped lines, yields an item without length and
  title; so does the second of two media lines with only skipped lines between them.
\<close>

theorem m3u_metadata_used_once:
  assumes "is_media_line (strip u)"
      and "\<forall>raw \<in> set skipped. is_skipped_line (strip raw)"
  shows "m3u_loop (u # rest) len ttl playlist
           = m3u_loop rest None None (playlist @ [PlaylistItem len ttl (strip u)])
       \<and> m3u_loop (skipped @ u # rest) None None playlist
           = m3u_loop rest None None (playlist @ [PlaylistItem None None (strip u)])
       \<and> (is_media_line (strip u') \<longrightarrow>
            m3u_loop (u' # skipped @ u # rest) len ttl playlist
              = m3u_loop rest None None
                  (playlist @ [PlaylistItem len ttl (strip u'), PlaylistItem None None (strip u)]))"
  using assms
  by (simp add: m3u_loop_media_line m3u_loop_skipped_lines del: m3u_loop.simps)

theorem m3u_metadata_used_once_witness:
  "is_media_line (strip (str ''http://b''))
   \<and> is_skipped_line (strip (str ''# note''))
   \<and> is_skipped_line (strip [])
   \<and> is_skipped_line (strip (str ''#EXTINF:7''))
   \<and> is_media_line (strip (str ''http://a''))
   \<and> m3u_loop [str ''http://a'', str ''# note'', [], str ''#EXTINF:7'', str ''http://b'']
        (Some (ListValue [str ''5''])) (Some (str ''Song'')) []
      = Inr [PlaylistItem (Some (ListValue [str ''5''])) (Some (str ''Song'')) (str ''http://a''),
             PlaylistItem None None (str ''http://b'')]"
  using m3u_metadata_used_once [of "str ''http://b''" "[str ''# note'', [], str ''#EXTINF:7'']"
      "[]" "Some (ListValue [str ''5''])" "Some (str ''Song'')" "[]" "str ''http://a''"]
  by (simp add: is_media_line_def is_skipped_line_def string_eval)

text \<open>
  C10. An \<open>#EXTINF:\<close> line whose remainder (the text between the marker and the next
  marker, as the source splits it) has no comma is skipped and leaves the pending length
  and title as they are, so they still go to the next media line.
\<close>

theorem m3u_invalid_extinf_keeps_pending:
  assumes "startswith (strip raw) EXTINF"
      and "py_index (py_split EXTINF (- 1) (strip raw)) 1 = Inr remainder"
      and "of_char CHR '','' \<notin> set remainder"
  shows "m3u_loop (raw # rest) len ttl playlist = m3u_loop rest len ttl playlist
       \<and> (is_media_line (strip u) \<longrightarrow>
            m3u_loop (raw # u # rest) len ttl playlist
              = m3u_loop rest None None (playlist @ [PlaylistItem len ttl (strip u)]))"
  using invalid_extinf_skipped [OF assms]
  by (simp add: m3u_loop_media_line m3u_loop_skipped_line del: m3u_loop.simps)

theorem m3u_invalid_extinf_keeps_pending_witness:
  "startswith (strip (str ''#EXTINF:oops'')) EXTINF
   \<and> py_index (py_split EXTINF (- 1) (strip (str ''#EXTINF:oops''))) 1 = Inr (str ''oops'')
   \<and> of_char CHR '','' \<notin> set (str ''oops'')
   \<and> is_media_line (strip (str ''http://x''))
   \<and> parse_m3u (HttpBody (str ''#EXTINF:5,Song'' @ [10] @ str ''#EXTINF:oops'' @ [10]
        @ str ''http://x''))
      = Inr [PlaylistItem (Some (ListValue [str ''5''])) (Some (str ''Song'')) (str ''http://x'')]"
  using m3u_invalid_extinf_keeps_pending [of "str ''#EXTINF:oops''" "str ''oops''" "[]"
      "Some (ListValue [str ''5''])" "Some (str ''Song'')" "[]" "str ''http://x''"]
  by (simp add: parse_m3u_def is_media_line_def string_eval)

section \<open>Facts about ChromecastInfo\<close>

lemmas descriptor_eval = fill_out_missing_chromecast_info_def is_audio_group_def
  CAST_TYPE_GROUP_def kitchen_group_info_def living_room_info_def
  offline_get_cast_type_def offline_get_multizone_status_def Let_def

text \<open>What the early return gives: the metadata, and no group status.\<close>

lemma fill_early_return:
  assumes "\<not> is_audio_group d \<or> is_dynamic_group d \<noteq> None"
  shows "fill_out_missing_chromecast_info get_cast_type get_multizone_status d
       = \<lparr>cast_info = (if cast_type (cast_info d) = None \<or> manufacturer (cast_info d) = None
                        then get_cast_type (cast_info d) else cast_info d),
          is_dynamic_group = None\<rparr>"
  using assms by (auto simp: fill_out_missing_chromecast_info_def Let_def)

text \<open>A descriptor that is complete, not a group and without group status is returned as it is.\<close>

lemma fill_fixed_point:
  assumes "cast_type (cast_info d) \<noteq> None" and "manufacturer (cast_info d) \<noteq> None"
      and "\<not> is_audio_group d" and "is_dynamic_group d = None"
  shows "fill_out_missing_chromecast_info get_cast_type get_multizone_status d = d"
proof -
  have "fill_out_missing_chromecast_info get_cast_type get_multizone_status d
      = \<lparr>cast_info = cast_info d, is_dynamic_group = None\<rparr>"
    using assms by (auto simp: fill_early_return)
  also have "\<dots> = d"
    using assms(4) by (cases d) simp
  finally show ?thesis .
qed

text \<open>
  For a descriptor that is not an audio group, whose filled-out descriptor has a known
  cast type and manufacturer and is not an audio group either, the second call returns
  what the first returned.
\<close>

lemma fill_twice_non_group:
  assumes "\<not> is_audio_group d"
      and "\<not> is_audio_group (fill_out_missing_chromecast_info get_cast_type get_multizone_status d)"
      and "cast_type (cast_info
             (fill_out_missing_chromecast_info get_cast_type get_multizone_status d)) \<noteq> None"
      and "manufacturer (cast_info
             (fill_out_missing_chromecast_info get_cast_type get_multizone_status d)) \<noteq> None"
  shows "fill_out_missing_chromecast_info get_cast_type get_multizone_status
           (fill_out_missing_chromecast_info get_cast_type get_multizone_status d)
       = fill_out_missing_chromecast_info get_cast_type get_multizone_status d"
proof -
  have "is_dynamic_group (fill_out_missing_chromecast_info get_cast_type get_multizone_status d)
      = None"
    using assms(1) by (simp add: fill_early_return)
  then show ?thesis
    using fill_fixed_point [OF assms(3) assms(4) assms(2)] by simp
qed

text \<open>
  A descriptor of unknown cast type that the capability query finds to be a group: the
  first call returns it without group status, the second call resolves the group status.
\<close>

lemma fill_twice_differs_when_resolved_to_group:
  "fill_out_missing_chromecast_info group_get_cast_type offline_get_multizone_status
     (fill_out_missing_chromecast_info group_get_cast_type offline_get_multizone_status
        \<lparr>cast_info = living_room_info\<lparr>cast_type := None\<rparr>, is_dynamic_group = None\<rparr>)
   \<noteq> fill_out_missing_chromecast_info group_get_cast_type offline_get_multizone_status
        \<lparr>cast_info = living_room_info\<lparr>cast_type := None\<rparr>, is_dynamic_group = None\<rparr>"
  by (simp add: descriptor_eval group_get_cast_type_def)

text \<open>
  What the function returns for an audio group whose manufacturer is known (its cast type
  is known, being the group type): the descriptor's own metadata, with the group status
  resolved when it was unknown and dropped when it was known.
\<close>

lemma fill_complete_group:
  assumes "is_audio_group d" and "manufacturer (cast_info d) \<noteq> None"
  shows "fill_out_missing_chromecast_info get_cast_type get_multizone_status d
       = \<lparr>cast_info = cast_info d,
          is_dynamic_group =
            (if is_dynamic_group d \<noteq> None then None
             else Some (case get_multizone_status (services (cast_info d)) of
                          None \<Rightarrow> False
                        | Some status \<Rightarrow>
                            list_ex (\<lambda>g. g = uuid (cast_info d)) (dynamic_groups status)))\<rparr>"
  using assms by (auto simp: fill_out_missing_chromecast_info_def is_audio_group_def Let_def)

text \<open>
  C3. Applying \<open>fill_out_missing_chromecast_info\<close> twice does not give the result of
  applying it once: for every audio group whose manufacturer is known, the second call
  returns another descriptor than the first. When the group status is unknown the first
  call resolves it and the second, taking the early return, gives it back as \<open>None\<close>;
  when it is known the first call drops it and the second resolves it.
\<close>

theorem fill_twice_differs_for_complete_group:
  assumes "is_audio_group d" and "manufacturer (cast_info d) \<noteq> None"
  shows "fill_out_missing_chromecast_info get_cast_type get_multizone_status
           (fill_out_missing_chromecast_info get_cast_type get_multizone_status d)
       \<noteq> fill_out_missing_chromecast_info get_cast_type get_multizone_status d"
proof -
  let ?r = "fill_out_missing_chromecast_info get_cast_type get_multizone_status d"
  have info: "cast_info ?r = cast_info d"
    by (simp add: fill_complete_group [OF assms])
  have flip: "is_dynamic_group ?r = None \<longleftrightarrow> is_dynamic_group d \<noteq> None"
    by (simp add: fill_complete_group [OF assms])
  have group: "is_audio_group ?r" and known: "manufacturer (cast_info ?r) \<noteq> None"
    using assms info by (simp_all add: is_audio_group_def)
  have "is_dynamic_group
          (fill_out_missing_chromecast_info get_cast_type get_multizone_status ?r) = None
      \<longleftrightarrow> is_dynamic_group ?r \<noteq> None"
    by (simp add: fill_complete_group [OF group known])
  with flip show ?thesis
    by auto
qed

theorem fill_twice_differs_for_complete_group_witness:
  "is_audio_group \<lparr>cast_info = kitchen_group_info, is_dynamic_group = None\<rparr>
   \<and> manufacturer (cast_info \<lparr>cast_info = kitchen_group_info, is_dynamic_group = None\<rparr>)
       = Some ''Google Inc.''
   \<and> fill_out_missing_chromecast_info offline_get_cast_type offline_get_multizone_status
        \<lparr>cast_info = kitchen_group_info, is_dynamic_group = None\<rparr>
       = \<lparr>cast_info = kitchen_group_info, is_dynamic_group = Some False\<rparr>
   \<and> fill_out_missing_chromecast_info offline_get_cast_type offline_get_multizone_status
        \<lparr>cast_info = kitchen_group_info, is_dynamic_group = Some False\<rparr>
       = \<lparr>cast_info = kitchen_group_info, is_dynamic_group = None\<rparr>
   \<and> fill_out_missing_chromecast_info offline_get_cast_type offline_get_multizone_status
        (fill_out_missing_chromecast_info offline_get_cast_type offline_get_multizone_status
           \<lparr>cast_info = kitchen_group_info, is_dynamic_group = None\<rparr>)
       \<noteq> fill_out_missing_chromecast_info offline_get_cast_type offline_get_multizone_status
           \<lparr>cast_info = kitchen_group_info, is_dynamic_group = None\<rparr>"
proof -
  let ?d = "\<lparr>cast_info = kitchen_group_info, is_dynamic_group = None\<rparr>"
  have h1: "is_audio_group ?d"
    by (simp add: descriptor_eval)
  have h2: "manufacturer (cast_info ?d) = Some ''Google Inc.''"
    by (simp add: descriptor_eval)
  have first: "fill_out_missing_chromecast_info offline_get_cast_type offline_get_multizone_status ?d
      = \<lparr>cast_info = kitchen_group_info, is_dynamic_group = Some False\<rparr>"
    by (simp add: descriptor_eval)
  have second: "fill_out_missing_chromecast_info offline_get_cast_type offline_get_multizone_status
        \<lparr>cast_info = kitchen_group_info, is_dynamic_group = Some False\<rparr>
      = \<lparr>cast_info = kitchen_group_info, is_dynamic_group = None\<rparr>"
    by (simp add: descriptor_eval)
  have "fill_out_missing_chromecast_info offline_get_cast_type offline_get_multizone_status
          (fill_out_missing_chromecast_info offline_get_cast_type offline_get_multizone_status ?d)
      \<noteq> fill_out_missing_chromecast_info offline_get_cast_type offline_get_multizone_status ?d"
    using fill_twice_differs_for_complete_group
      [of ?d offline_get_cast_type offline_get_multizone_status] h1 h2
    by simp
  with h1 h2 first second show ?thesis
    by blast
qed

text \<open>
  C4. For a speaker group with complete metadata whose \<open>is_dynamic_group\<close> is known to be
  \<open>True\<close>, the function takes the early return and the descriptor it returns has
  \<open>is_dynamic_group = None\<close>: the metadata is unchanged, the known group status is lost.
\<close>

theorem fill_drops_known_group_status:
  "is_audio_group \<lparr>cast_info = kitchen_group_info, is_dynamic_group = Some True\<rparr>
   \<and> fill_out_missing_chromecast_info get_cast_type get_multizone_status
        \<lparr>cast_info = kitchen_group_info, is_dynamic_group = Some True\<rparr>
     = \<lparr>cast_info = kitchen_group_info, is_dynamic_group = None\<rparr>"
  by (simp add: descriptor_eval)

theorem fill_drops_known_group_status_witness:
  "fill_out_missing_chromecast_info offline_get_cast_type offline_get_multizone_status
     \<lparr>cast_info = kitchen_group_info, is_dynamic_group = Some True\<rparr>
   = \<lparr>cast_info = kitchen_group_info, is_dynamic_group = None\<rparr>"
  using fill_drops_known_group_status [of offline_get_cast_type offline_get_multizone_status]
  by blast

text \<open>
  C5. For a descriptor that is not an audio group, the returned descriptor has
  \<open>is_dynamic_group = None\<close>.
\<close>

theorem fill_non_group_no_group_status:
  assumes "\<not> is_audio_group d"
  shows "is_dynamic_group (fill_out_missing_chromecast_info get_cast_type get_multizone_status d)
       = None"
  using assms by (simp add: fill_early_return)

theorem fill_non_group_no_group_status_witness:
  "\<not> is_audio_group \<lparr>cast_info = living_room_info, is_dynamic_group = Some True\<rparr>
   \<and> is_dynamic_group (fill_out_missing_chromecast_info offline_get_cast_type
        offline_get_multizone_status
        \<lparr>cast_info = living_room_info, is_dynamic_group = Some True\<rparr>) = None"
proof -
  have h: "\<not> is_audio_group \<lparr>cast_info = living_room_info, is_dynamic_group = Some True\<rparr>"
    by (simp add: descriptor_eval)
  from fill_non_group_no_group_status [OF h] h show ?thesis by blast
qed

section \<open>Facts about CastStatusListener\<close>

lemmas handler_defs = new_cast_status_def new_media_status_def new_connection_status_def
  added_to_multizone_def removed_from_multizone_def multizone_new_cast_status_def
  multizone_new_media_status_def

lemmas listener_eval = CastStatusListener_init_def invalidate_def call_device_def
  call_chromecast_def call_mz_mgr_def living_room_world_def living_room_info_def
  is_audio_group_def CAST_TYPE_GROUP_def library_coordinator_def quiet_coordinator_def Let_def

text \<open>A listener whose flag is cleared forwards nothing, whatever the callback.\<close>

lemma deliver_invalid: "\<not> valid self \<Longrightarrow> deliver self c w = w"
  by (cases c) (simp_all add: handler_defs)

lemma deliver_all_invalid: "\<not> valid self \<Longrightarrow> deliver_all self cs w = w"
  by (induction cs arbitrary: w) (simp_all add: deliver_invalid)

text \<open>While the flag is set, each of the five forwarding handlers calls the device.\<close>

lemma deliver_valid_forwards:
  assumes "valid self"
  shows "received (cast_device (deliver self (New_cast_status s) w))
           = received (cast_device w) @ [Dev_new_cast_status s]"
    and "received (cast_device (deliver self (New_media_status s) w))
           = received (cast_device w) @ [Dev_new_media_status s]"
    and "received (cast_device (deliver self (New_connection_status s) w))
           = received (cast_device w) @ [Dev_new_connection_status s]"
    and "received (cast_device (deliver self (Removed_from_multizone g) w))
           = received (cast_device w) @ [Dev_multizone_new_media_status g None]"
    and "received (cast_device (deliver self (Multizone_new_media_status g s) w))
           = received (cast_device w) @ [Dev_multizone_new_media_status g (Some s)]"
  using assms by (simp_all add: handler_defs call_device_def)

text \<open>\<open>invalidate\<close> clears the flag when it returns, and only then.\<close>

lemma invalidate_returned_clears_flag:
  "raised (invalidate mgr self w) = None \<Longrightarrow> \<not> valid (the_listener (invalidate mgr self w))"
  by (simp add: invalidate_def Let_def split: prod.splits if_splits)

lemma invalidate_raised_keeps_listener:
  "raised (invalidate mgr self w) \<noteq> None \<Longrightarrow> the_listener (invalidate mgr self w) = self"
  by (simp add: invalidate_def Let_def split: prod.splits if_splits)

lemma invalidate_keeps_device: "cast_device (world_after (invalidate mgr self w)) = cast_device w"
  by (simp add: invalidate_def call_mz_mgr_def Let_def split: prod.splits)

text \<open>
  After an \<open>invalidate\<close> that returned, delivering any sequence of callbacks to the
  listener leaves the world as \<open>invalidate\<close> left it; the calls the logical device has
  received are those it had received before.
\<close>

lemma invalidate_returned_stops_forwarding:
  assumes "raised (invalidate mgr self w) = None"
  shows "deliver_all (the_listener (invalidate mgr self w)) callbacks
           (world_after (invalidate mgr self w))
         = world_after (invalidate mgr self w)"
    and "received (cast_device
           (deliver_all (the_listener (invalidate mgr self w)) callbacks
              (world_after (invalidate mgr self w))))
         = received (cast_device w)"
  using invalidate_returned_clears_flag [OF assms]
  by (simp_all add: deliver_all_invalid invalidate_keeps_device)

text \<open>
  The coordinator calls of a construction followed by an invalidation, for the four
  combinations of \<open>is_audio_group\<close> and \<open>mz_only\<close>, whatever the coordinator does.
\<close>

lemma init_invalidate_mz_calls:
  "mz_mgr (world_after
     (invalidate mgr (the_listener (CastStatusListener_init mgr ident mz_only w))
                     (world_after (CastStatusListener_init mgr ident mz_only w))))
   = mz_mgr w @
       (if is_audio_group (dev_cast_info (cast_device w))
        then [Add_multizone (chromecast_uuid (chromecast w)),
              Remove_multizone (chromecast_uuid (chromecast w))]
        else if mz_only then [Deregister_listener (chromecast_uuid (chromecast w)) ident]
        else [Register_listener (chromecast_uuid (chromecast w)) ident,
              Deregister_listener (chromecast_uuid (chromecast w)) ident])"
  by (simp add: CastStatusListener_init_def invalidate_def call_chromecast_def
      call_mz_mgr_def Let_def)

text \<open>
  C1. When the coordinator call of \<open>invalidate\<close> raises, \<open>invalidate\<close> has been called
  and the listener is as it was: a listener that was valid stays valid and the next
  callback is forwarded to the logical device. (After an \<open>invalidate\<close> that returned
  nothing is forwarded: \<open>invalidate_returned_stops_forwarding\<close>.)
\<close>

theorem invalidate_raising_keeps_forwarding:
  assumes "raised (invalidate mgr self w) \<noteq> None" and "valid self"
  shows "valid (the_listener (invalidate mgr self w))
       \<and> received (cast_device
            (deliver (the_listener (invalidate mgr self w)) (New_media_status s)
               (world_after (invalidate mgr self w))))
         = received (cast_device w) @ [Dev_new_media_status s]"
  using assms
  by (simp add: invalidate_raised_keeps_listener deliver_valid_forwards invalidate_keeps_device
      del: deliver.simps)

text \<open>
  The listener of a plain receiver constructed with \<open>mz_only\<close> was never registered; with
  the coordinator that keeps its listeners by uuid, \<open>invalidate\<close> raises \<open>KeyError\<close> and
  the media status delivered next reaches the device.
\<close>

theorem invalidate_raising_keeps_forwarding_witness:
  "raised (CastStatusListener_init library_coordinator 1 True living_room_world) = None
   \<and> valid (the_listener (CastStatusListener_init library_coordinator 1 True living_room_world))
   \<and> raised (invalidate library_coordinator
        (the_listener (CastStatusListener_init library_coordinator 1 True living_room_world))
        (world_after (CastStatusListener_init library_coordinator 1 True living_room_world)))
       = Some KeyError
   \<and> valid (the_listener (invalidate library_coordinator
        (the_listener (CastStatusListener_init library_coordinator 1 True living_room_world))
        (world_after (CastStatusListener_init library_coordinator 1 True living_room_world))))
   \<and> received (cast_device
        (deliver
           (the_listener (invalidate library_coordinator
              (the_listener (CastStatusListener_init library_coordinator 1 True living_room_world))
              (world_after (CastStatusListener_init library_coordinator 1 True living_room_world))))
           (New_media_status ''playing'')
           (world_after (invalidate library_coordinator
              (the_listener (CastStatusListener_init library_coordinator 1 True living_room_world))
              (world_after (CastStatusListener_init library_coordinator 1 True living_room_world))))))
       = [Dev_new_media_status ''playing'']"
proof -
  let ?made = "CastStatusListener_init library_coordinator 1 True living_room_world"
  let ?self = "the_listener ?made"
  let ?w = "world_after ?made :: string world"
  have made: "raised ?made = None"
    by (simp add: listener_eval)
  have valid: "valid ?self"
    by (simp add: listener_eval)
  have fresh: "received (cast_device ?w) = []"
    by (simp add: listener_eval)
  have raises: "raised (invalidate library_coordinator ?self ?w) = Some KeyError"
    by (simp add: listener_eval)
  then have "raised (invalidate library_coordinator ?self ?w) \<noteq> None"
    by simp
  from invalidate_raising_keeps_forwarding [OF this valid, of "''playing''"]
  have "valid (the_listener (invalidate library_coordinator ?self ?w))
      \<and> received (cast_device
           (deliver (the_listener (invalidate library_coordinator ?self ?w))
              (New_media_status ''playing'')
              (world_after (invalidate library_coordinator ?self ?w))))
        = [Dev_new_media_status ''playing'']"
    by (simp only: fresh append_Nil)
  with made valid raises show ?thesis
    by blast
qed

text \<open>
  C6. For a device that is not an audio group and a listener constructed with \<open>mz_only\<close>,
  the construction makes no call to the coordinator, and \<open>invalidate\<close> then calls
  \<open>deregister_listener\<close> for a listener that was never registered, whatever the
  coordinator does.
\<close>

theorem invalidate_deregisters_unregistered_listener:
  "\<not> is_audio_group (dev_cast_info (cast_device living_room_world))
   \<and> mz_mgr (world_after (CastStatusListener_init mgr 1 True living_room_world)) = []
   \<and> mz_mgr (world_after
        (invalidate mgr (the_listener (CastStatusListener_init mgr 1 True living_room_world))
                        (world_after (CastStatusListener_init mgr 1 True living_room_world))))
     = [Deregister_listener ''uuid-living'' 1]"
  by (simp add: listener_eval)

theorem invalidate_deregisters_unregistered_listener_witness:
  "mz_mgr (world_after (CastStatusListener_init quiet_coordinator 1 True living_room_world)) = []
   \<and> mz_mgr (world_after
        (invalidate quiet_coordinator
           (the_listener (CastStatusListener_init quiet_coordinator 1 True living_room_world))
           (world_after (CastStatusListener_init quiet_coordinator 1 True living_room_world))))
     = [Deregister_listener ''uuid-living'' 1]"
  using invalidate_deregisters_unregistered_listener [of quiet_coordinator]
  by blast

section \<open>Facts about parse_pls\<close>

lemmas section_defs = section_get_def section_getitem_def section_getint_def parser_getint_def

lemma parse_pls_cant_parse:
  "read_string pls_data = None \<Longrightarrow>
   parse_pls read_string to_int (HttpBody pls_data) = Inl (PlaylistError Cant_parse_playlist)"
  by (simp add: parse_pls_def)

lemma parse_pls_missing_section:
  "read_string pls_data = Some pls_parser \<Longrightarrow> pls_parser PLS_SECTION_PLAYLIST = None \<Longrightarrow>
   parse_pls read_string to_int (HttpBody pls_data) = Inl (PlaylistError Invalid_playlist)"
  by (simp add: parse_pls_def)

lemma parse_pls_version_absent:
  "read_string pls_data = Some pls_parser \<Longrightarrow>
   pls_parser PLS_SECTION_PLAYLIST = Some playlist_section \<Longrightarrow>
   playlist_section (str ''Version'') = None \<Longrightarrow>
   parse_pls read_string to_int (HttpBody pls_data) = Inl (PlaylistError Invalid_playlist)"
  by (simp add: parse_pls_def section_defs)

lemma parse_pls_version_other:
  "read_string pls_data = Some pls_parser \<Longrightarrow>
   pls_parser PLS_SECTION_PLAYLIST = Some playlist_section \<Longrightarrow>
   playlist_section (str ''Version'') = Some (Inr v) \<Longrightarrow> to_int v = Some n \<Longrightarrow> n \<noteq> 2 \<Longrightarrow>
   parse_pls read_string to_int (HttpBody pls_data) = Inl (PlaylistError Invalid_playlist)"
  by (simp add: parse_pls_def section_defs)

lemma parse_pls_entries_absent:
  "read_string pls_data = Some pls_parser \<Longrightarrow>
   pls_parser PLS_SECTION_PLAYLIST = Some playlist_section \<Longrightarrow>
   playlist_section (str ''Version'') = Some (Inr v) \<Longrightarrow> to_int v = Some 2 \<Longrightarrow>
   playlist_section (str ''NumberOfEntries'') = None \<Longrightarrow>
   parse_pls read_string to_int (HttpBody pls_data)
     = Inl (PlaylistError Invalid_NumberOfEntries)"
  by (simp add: parse_pls_def section_defs)

lemma parse_pls_entries_not_integer:
  "read_string pls_data = Some pls_parser \<Longrightarrow>
   pls_parser PLS_SECTION_PLAYLIST = Some playlist_section \<Longrightarrow>
   playlist_section (str ''Version'') = Some (Inr v) \<Longrightarrow> to_int v = Some 2 \<Longrightarrow>
   playlist_section (str ''NumberOfEntries'') = Some (Inr m) \<Longrightarrow> to_int m = None \<Longrightarrow>
   parse_pls read_string to_int (HttpBody pls_data)
     = Inl (PlaylistError Invalid_NumberOfEntries)"
  by (simp add: parse_pls_def section_defs)

text \<open>
  When no option of the section raises on reading, the loop returns one item for each
  entry that has a \<open>File\<close> option, in the order of the entries.
\<close>

lemma pls_loop_items:
  assumes "\<And>option e. playlist_section option \<noteq> Some (Inl e)"
  shows "pls_loop playlist_section entries playlist
       = Inr (playlist @ map (pls_item playlist_section) (filter (has_file playlist_section) entries))"
proof (induction entries arbitrary: playlist)
  case Nil
  show ?case by simp
next
  case (Cons entry entries)
  have outcome: "playlist_section option = None
      \<or> (\<exists>v. playlist_section option = Some (Inr v))" for option
    using assms [of option] by (cases "playlist_section option") (auto intro: sum.exhaust)
  show ?case
  proof (cases "has_file playlist_section entry")
    case False
    with Cons.IH show ?thesis
      by (simp add: has_file_def Let_def)
  next
    case True
    then obtain url_text
      where present: "playlist_section (str ''File'' @ py_str_int entry) = Some (Inr url_text)"
      using outcome [of "str ''File'' @ py_str_int entry"] by (auto simp: has_file_def)
    have len: "section_get playlist_section (str ''Length'' @ py_str_int entry)
        = Inr (option_value playlist_section (str ''Length'' @ py_str_int entry))"
      using outcome [of "str ''Length'' @ py_str_int entry"]
      by (auto simp: section_get_def option_value_def)
    have ttl: "section_get playlist_section (str ''Title'' @ py_str_int entry)
        = Inr (option_value playlist_section (str ''Title'' @ py_str_int entry))"
      using outcome [of "str ''Title'' @ py_str_int entry"]
      by (auto simp: section_get_def option_value_def)
    have item: "section_getitem playlist_section (str ''File'' @ py_str_int entry) = Inr url_text"
      by (simp add: section_getitem_def present)
    have "pls_loop playlist_section (entry # entries) playlist
        = pls_loop playlist_section entries (playlist @ [pls_item playlist_section entry])"
      by (simp add: Let_def len ttl item present pls_item_def option_value_def)
    with True Cons.IH show ?thesis
      by simp
  qed
qed

lemma parse_pls_items:
  assumes "read_string pls_data = Some pls_parser"
      and "pls_parser PLS_SECTION_PLAYLIST = Some playlist_section"
      and "\<And>option e. playlist_section option \<noteq> Some (Inl e)"
      and "playlist_section (str ''Version'') = Some (Inr v)" and "to_int v = Some 2"
      and "playlist_section (str ''NumberOfEntries'') = Some (Inr m)"
      and "to_int m = Some num_entries"
  shows "parse_pls read_string to_int (HttpBody pls_data)
       = Inr (map (pls_item playlist_section)
                (filter (has_file playlist_section) [1..num_entries]))"
  using assms(1,2,4-7)
  by (simp add: parse_pls_def section_defs pls_loop_items [OF assms(3)])

declare decimal.simps [simp del]

lemma decimal_digit: "n < 10 \<Longrightarrow> decimal n = [48 + n]"
  by (simp add: decimal.simps)

lemma decimal_more: "\<not> n < 10 \<Longrightarrow> decimal n = decimal (n div 10) @ [48 + n mod 10]"
  by (subst decimal.simps) simp

lemma upto_1_2: "[1..2::int] = [1, 2]"
  by (simp add: upto.simps)

text \<open>
  The playlist \<open>[playlist]\<close>, \<open>Version=2\<close>, \<open>NumberOfEntries=2\<close>, \<open>File1=http://x\<close>,
  \<open>Title1=Song\<close>, \<open>File2=http://y\<close> gives two items in order; the second has neither
  title nor length.
\<close>

lemma parse_pls_two_entries:
  "read_string pls_data = Some [PLS_SECTION_PLAYLIST \<mapsto> two_entries_section] \<Longrightarrow>
   parse_pls read_string ascii_int (HttpBody pls_data)
     = Inr [PlaylistItem None (Some (str ''Song'')) (str ''http://x''),
            PlaylistItem None None (str ''http://y'')]"
  by (simp add: parse_pls_def section_defs two_entries_section_def ascii_int_def strip_def
      is_space_def str_def py_str_int_def decimal_digit upto_1_2 Let_def)


text \<open>
  C9. When the \<open>[playlist]\<close> section has a \<open>Version\<close> that is not an integer,
  \<open>parse_pls\<close> raises the \<open>ValueError\<close> of the conversion, not the invalid-playlist error:
  \<open>getint\<close> falls back to \<open>None\<close> only for an absent option, and the call is outside any
  \<open>try\<close>. (The rest of the claim holds where reading an option does not raise: see
  \<open>parse_pls_missing_section\<close>, \<open>parse_pls_version_absent\<close>, \<open>parse_pls_version_other\<close>,
  \<open>parse_pls_entries_absent\<close>, \<open>parse_pls_entries_not_integer\<close> and \<open>parse_pls_items\<close>.)
\<close>

theorem parse_pls_non_integer_version:
  assumes "read_string pls_data = Some pls_parser"
      and "pls_parser PLS_SECTION_PLAYLIST = Some playlist_section"
      and "playlist_section (str ''Version'') = Some (Inr v)"
      and "to_int v = None"
  shows "parse_pls read_string to_int (HttpBody pls_data) = Inl ValueError"
  using assms by (simp add: parse_pls_def section_defs)

lemma ascii_int_two: "ascii_int (str ''two'') = None"
  by (simp add: ascii_int_def str_def strip_def is_space_def)

theorem parse_pls_non_integer_version_witness:
  "version_two_parser version_two_pls = Some [PLS_SECTION_PLAYLIST \<mapsto> version_two_section]
   \<and> [PLS_SECTION_PLAYLIST \<mapsto> version_two_section] PLS_SECTION_PLAYLIST
       = Some version_two_section
   \<and> version_two_section (str ''Version'') = Some (Inr (str ''two''))
   \<and> ascii_int (str ''two'') = None
   \<and> parse_pls version_two_parser ascii_int (HttpBody version_two_pls) = Inl ValueError"
proof -
  have h1: "version_two_parser version_two_pls
      = Some [PLS_SECTION_PLAYLIST \<mapsto> version_two_section]"
    by (simp add: version_two_parser_def)
  have h2: "[PLS_SECTION_PLAYLIST \<mapsto> version_two_section] PLS_SECTION_PLAYLIST
      = Some version_two_section"
    by simp
  have h3: "version_two_section (str ''Version'') = Some (Inr (str ''two''))"
    by (simp add: version_two_section_def str_def)
  have "parse_pls version_two_parser ascii_int (HttpBody version_two_pls) = Inl ValueError"
    using parse_pls_non_integer_version
      [of version_two_parser version_two_pls "[PLS_SECTION_PLAYLIST \<mapsto> version_two_section]"
          version_two_section "str ''two''" ascii_int]
      h1 h2 h3 ascii_int_two
    by blast
  with h1 h2 h3 ascii_int_two show ?thesis
    by blast
qed

end
